theory Spec2Isabelle
  imports Complex_Main "HOL-Library.Word"
begin

section \<open>Machine types and casts\<close>

text \<open>
  \<^verbatim>\<open>uint8_t\<close> is an 8-bit word; \<^verbatim>\<open>uint32_t\<close> and \<^verbatim>\<open>unsigned long\<close> (32 bits on the
  ESP32 the components are built for) are 32-bit words, so that \<^verbatim>\<open>now - last_update\<close> wraps
  around as it does in the source.

  \<^verbatim>\<open>float\<close> and \<^verbatim>\<open>double\<close> values are modelled as exact reals: rounding of the binary
  formats, infinities and NaN are not part of the model. The concrete inputs evaluated
  below were chosen so that the real computation and the binary one take the same branch.
\<close>

type_synonym u8 = "8 word"
type_synonym u16 = "16 word"
type_synonym u32 = "32 word"

definition SAMPLES :: nat where
  "SAMPLES = 256"

definition UDP_PACKET_SIZE :: nat where
  "UDP_PACKET_SIZE = 24"

text \<open>
  Conversion of a floating value to an integer type drops the fractional part (rounds
  towards zero).
\<close>

definition trunc_real :: "real \<Rightarrow> int" where
  "trunc_real x = (if 0 \<le> x then \<lfloor>x\<rfloor> else \<lceil>x\<rceil>)"

text \<open>
  The cast \<^verbatim>\<open>(uint8_t)(x)\<close> of a floating value. For \<open>0 \<le> x < 256\<close> the result is the
  integer part of \<open>x\<close>. Outside that range C++ leaves the conversion undefined; the model
  reduces modulo 256 there (the wrap-around the spec's design note speaks of).
\<close>

definition to_uint8 :: "real \<Rightarrow> u8" where
  "to_uint8 x = word_of_int (trunc_real x)"

text \<open>
  Modelled from the spec: the Arduino macro \<^verbatim>\<open>constrain(amt, low, high)\<close> is not defined in
  the repository; the spec says "clamp each to [0.0, 1.0]". The definition is the
  macro's usual expansion \<^verbatim>\<open>((amt)<(low)?(low):((amt)>(high)?(high):(amt)))\<close>.
\<close>

definition constrain :: "real \<Rightarrow> real \<Rightarrow> real \<Rightarrow> real" where
  "constrain amt low high = (if amt < low then low else if amt > high then high else amt)"

text \<open>\<^verbatim>\<open>fmod(x, y)\<close> of the C library: the remainder has the sign of \<open>x\<close>.\<close>

definition fmod :: "real \<Rightarrow> real \<Rightarrow> real" where
  "fmod x y = x - of_int (trunc_real (x / y)) * y"


text \<open>The accumulation loops \<^verbatim>\<open>for (int i = lo; i <= hi; i++) acc += vReal[i]\<close>.\<close>

definition band_sum :: "real list \<Rightarrow> nat \<Rightarrow> nat \<Rightarrow> real" where
  "band_sum v lo hi = foldl (\<lambda>acc i. acc + v ! i) 0 [lo..<Suc hi]"

text \<open>
  The three calls into the arduinoFFT library (windowing, transform, magnitudes), which is
  not part of the repository, are a parameter of the analysis: a function from the arrays
  \<open>vReal\<close> and \<open>vImag\<close> to their contents after the calls.
\<close>

type_synonym fft_lib = "real list \<Rightarrow> real list \<Rightarrow> real list \<times> real list"

text \<open>
  \<^verbatim>\<open>hsv_to_rgb\<close>, with the three output references returned as a triple. The function
  has the same body in fft_analyzer.h and in music_reactive.h.
\<close>

definition hsv_to_rgb :: "real \<Rightarrow> real \<Rightarrow> real \<Rightarrow> u8 \<times> u8 \<times> u8" where
  "hsv_to_rgb h s v =
     (let c = v * s;
          x = c * (1 - \<bar>fmod (h * 6) 2 - 1\<bar>);
          m = v - c;
          (r_prime, g_prime, b_prime) =
            (if h < 0.166 then (c, x, 0)
             else if h < 0.333 then (x, c, 0)
             else if h < 0.5 then (0, c, x)
             else if h < 0.666 then (0, x, c)
             else if h < 0.833 then (x, 0, c)
             else (c, 0, x))
      in (to_uint8 ((r_prime + m) * 255),
          to_uint8 ((g_prime + m) * 255),
          to_uint8 ((b_prime + m) * 255)))"


section \<open>fft_analyzer.h: the single-node effect\<close>

text \<open>
  The fields of \<^verbatim>\<open>class MusicReactiveEffect\<close>. Its \<^verbatim>\<open>send_mesh_command\<close> is a stub that only
  logs the colour; \<open>colors_sent\<close> records the payloads it was given and \<open>published\<close> the
  values handed to the three sensors.
\<close>

record MusicReactiveEffect =
  vReal :: "real list"
  vImag :: "real list"
  bass_level :: real
  mid_level :: real
  treble_level :: real
  sensitivity :: real
  update_rate :: real
  running :: bool
  color_mode :: string
  target_addr :: "u8 \<times> u8"
  last_update :: u32
  colors_sent :: "u8 list list"
  published :: "(real \<times> real \<times> real) list"

text \<open>
  \<^verbatim>\<open>sample_audio\<close>: \<open>samples_buffer\<close> is what \<^verbatim>\<open>i2s_read\<close> delivered, \<^verbatim>\<open>SAMPLES\<close> values of
  type \<^verbatim>\<open>int32_t\<close>.
\<close>

definition sample_audio_single :: "32 word list \<Rightarrow> MusicReactiveEffect \<Rightarrow> MusicReactiveEffect" where
  "sample_audio_single samples_buffer st =
     st\<lparr>MusicReactiveEffect.vReal :=
          map (\<lambda>i. real_of_int (sint (samples_buffer ! i)) / 2147483648) [0..<SAMPLES],
        MusicReactiveEffect.vImag := replicate SAMPLES 0\<rparr>"

text \<open>
  \<^verbatim>\<open>analyze_frequencies\<close> of fft_analyzer.h: three bands, no volume. The calls into the
  arduinoFFT library are the parameter \<open>fft\<close>.
\<close>

definition analyze_frequencies_single :: "fft_lib \<Rightarrow> MusicReactiveEffect \<Rightarrow> MusicReactiveEffect" where
  "analyze_frequencies_single fft st =
     (let (re, im) = fft (MusicReactiveEffect.vReal st) (MusicReactiveEffect.vImag st);
          b = band_sum re 1 6 / 6;
          m = band_sum re 6 23 / 18;
          t = band_sum re 23 93 / 71;
          b = b * MusicReactiveEffect.sensitivity st;
          m = m * MusicReactiveEffect.sensitivity st;
          t = t * MusicReactiveEffect.sensitivity st
      in st\<lparr>MusicReactiveEffect.vReal := re, MusicReactiveEffect.vImag := im,
            MusicReactiveEffect.bass_level := constrain b 0 1,
            MusicReactiveEffect.mid_level := constrain m 0 1,
            MusicReactiveEffect.treble_level := constrain t 0 1\<rparr>)"

text \<open>The channels chosen by \<^verbatim>\<open>send_color_command\<close> of fft_analyzer.h.\<close>

definition color_rgb_single :: "MusicReactiveEffect \<Rightarrow> u8 \<times> u8 \<times> u8" where
  "color_rgb_single st =
     (let bass = MusicReactiveEffect.bass_level st;
          mid = MusicReactiveEffect.mid_level st;
          treble = MusicReactiveEffect.treble_level st
      in
      if MusicReactiveEffect.color_mode st = ''RGB Frequency'' then
        (to_uint8 (bass * 255), to_uint8 (mid * 255), to_uint8 (treble * 255))
      else if MusicReactiveEffect.color_mode st = ''Amplitude'' then
        (let total = (bass + mid + treble) / 3
         in (to_uint8 (total * 255), to_uint8 (total * 255), to_uint8 (total * 255)))
      else if MusicReactiveEffect.color_mode st = ''Rainbow Cycle'' then
        (let max_level = max bass (max mid treble);
             hue = (if max_level = bass then 0
                    else if max_level = mid then 0.33
                    else 0.66)
         in hsv_to_rgb hue 1 max_level)
      else if MusicReactiveEffect.color_mode st = ''Bass Pulse'' then
        (if bass > 0.6 then (255, 0, 0)
         else (to_uint8 (bass * 100), to_uint8 (mid * 50), to_uint8 (treble * 150)))
      else (0, 0, 0))"

definition send_color_command_single :: "MusicReactiveEffect \<Rightarrow> MusicReactiveEffect" where
  "send_color_command_single st =
     (let (r, g, b) = color_rgb_single st;
          payload = [0x93, fst (MusicReactiveEffect.target_addr st),
                     snd (MusicReactiveEffect.target_addr st), 0x04, 0xff,
                     r, g, b, 0x00, 0x00, 0x00, 0x00]
      in st\<lparr>colors_sent := colors_sent st @ [payload]\<rparr>)"


section \<open>music_reactive.h: the master/slave effect\<close>

text \<open>\<^verbatim>\<open>struct AudioSyncPacket\<close>: 24 bytes, all fields \<^verbatim>\<open>uint8_t\<close>, so no padding.\<close>

record AudioSyncPacket =
  header :: "u8 \<times> u8"
  pkt_volume :: u8
  bass :: u8
  mid :: u8
  treble :: u8
  fft_bins :: "u8 list"

text \<open>
  The bytes \<^verbatim>\<open>udp.write((uint8_t*)&packet, sizeof(AudioSyncPacket))\<close> puts on the wire, and
  the struct \<^verbatim>\<open>udp.read((uint8_t*)&packet, sizeof(AudioSyncPacket))\<close> fills from the first 24
  bytes of a datagram.
\<close>

definition packet_bytes :: "AudioSyncPacket \<Rightarrow> u8 list" where
  "packet_bytes p =
     [fst (header p), snd (header p), pkt_volume p, bass p, mid p, treble p] @ fft_bins p"

definition read_packet :: "u8 list \<Rightarrow> AudioSyncPacket" where
  "read_packet buf =
     \<lparr>header = (buf ! 0, buf ! 1), pkt_volume = buf ! 2, bass = buf ! 3, mid = buf ! 4,
      treble = buf ! 5, fft_bins = take 18 (drop 6 buf)\<rparr>"

text \<open>
  The fields of \<^verbatim>\<open>class MusicReactiveEffectUDP\<close>. \<open>controller\<close> is whether the controller
  pointer is set. The last three fields record the effects of the calls to collaborators
  outside the repository: the datagrams given to \<^verbatim>\<open>udp.write\<close>, the calls
  \<^verbatim>\<open>controller->send_raw_command(dst, data)\<close>, and the values handed to the three sensors'
  \<^verbatim>\<open>publish_state\<close>. Log output is not modelled.
\<close>

record MusicReactiveEffectUDP =
  is_master :: bool
  running :: bool
  udp_enabled :: bool
  vReal :: "real list"
  vImag :: "real list"
  bass_level :: real
  mid_level :: real
  treble_level :: real
  volume :: real
  sensitivity :: real
  update_rate :: real
  target_addr :: "u8 \<times> u8"
  color_mode :: string
  packet_count :: u32
  last_packet_time :: u32
  last_update :: u32
  controller :: bool
  udp_sent :: "u8 list list"
  mesh_sent :: "(u16 \<times> u8 list) list"
  published :: "(real \<times> real \<times> real) list"

text \<open>
  The member initialisers and the constructor. The constructor does not initialise the two
  sample arrays; the model starts them at 0, and no property below depends on it.
\<close>

definition new_effect :: "bool \<Rightarrow> MusicReactiveEffectUDP" where
  "new_effect master_mode =
     \<lparr>is_master = master_mode, running = False, udp_enabled = True,
      vReal = replicate SAMPLES 0, vImag = replicate SAMPLES 0,
      bass_level = 0, mid_level = 0, treble_level = 0, volume = 0,
      sensitivity = 1, update_rate = 10, target_addr = (0x2a, 0xa8),
      color_mode = ''RGB Frequency'', packet_count = 0, last_packet_time = 0,
      last_update = 0, controller = False, udp_sent = [], mesh_sent = [], published = []\<rparr>"

text \<open>
  \<^verbatim>\<open>sample_audio\<close>: \<open>samples_buffer\<close> is what \<^verbatim>\<open>i2s_read\<close> delivered, \<^verbatim>\<open>SAMPLES\<close> values of
  type \<^verbatim>\<open>int32_t\<close>.
\<close>

definition sample_audio :: "32 word list \<Rightarrow> MusicReactiveEffectUDP \<Rightarrow> MusicReactiveEffectUDP" where
  "sample_audio samples_buffer st =
     st\<lparr>vReal := map (\<lambda>i. real_of_int (sint (samples_buffer ! i)) / 2147483648) [0..<SAMPLES],
        vImag := replicate SAMPLES 0\<rparr>"

text \<open>
  \<^verbatim>\<open>analyze_frequencies\<close> of music_reactive.h: three bands and the volume.
\<close>

definition analyze_frequencies :: "fft_lib \<Rightarrow> MusicReactiveEffectUDP \<Rightarrow> MusicReactiveEffectUDP" where
  "analyze_frequencies fft st =
     (let (re, im) = fft (vReal st) (vImag st);
          b = band_sum re 1 6 / 6;
          m = band_sum re 6 23 / 18;
          t = band_sum re 23 93 / 71;
          v = (b + m + t) / 3;
          b = b * sensitivity st;
          m = m * sensitivity st;
          t = t * sensitivity st;
          v = v * sensitivity st
      in st\<lparr>vReal := re, vImag := im,
            bass_level := constrain b 0 1,
            mid_level := constrain m 0 1,
            treble_level := constrain t 0 1,
            volume := constrain v 0 1\<rparr>)"

text \<open>
  \<^verbatim>\<open>broadcast_audio_data\<close>: the packet it builds, and the write to the socket. The bin index
  is \<^verbatim>\<open>(i * SAMPLES / 2) / 18\<close> in \<^verbatim>\<open>int\<close> arithmetic.
\<close>

definition build_packet :: "MusicReactiveEffectUDP \<Rightarrow> AudioSyncPacket" where
  "build_packet st =
     \<lparr>header = (of_char CHR ''A'', of_char CHR ''S''),
      pkt_volume = to_uint8 (volume st * 255),
      bass = to_uint8 (bass_level st * 255),
      mid = to_uint8 (mid_level st * 255),
      treble = to_uint8 (treble_level st * 255),
      fft_bins = map (\<lambda>i. to_uint8 (constrain
                    (vReal st ! ((i * SAMPLES div 2) div 18) * sensitivity st * 255) 0 255))
                  [0..<18]\<rparr>"

definition broadcast_audio_data :: "MusicReactiveEffectUDP \<Rightarrow> MusicReactiveEffectUDP" where
  "broadcast_audio_data st = st\<lparr>udp_sent := udp_sent st @ [packet_bytes (build_packet st)]\<rparr>"

text \<open>
  \<^verbatim>\<open>receive_audio_data\<close>. \<open>buf\<close> is the datagram \<^verbatim>\<open>udp.read\<close> reads from (the caller has
  checked that it holds at least 24 bytes) and \<open>now\<close> is the value of \<^verbatim>\<open>millis()\<close>. The
  source function returns nothing; the first component of the result tells which of its
  two exits was taken, the early return after the warning or the end of the body.
\<close>

datatype decode_result = Invalid_Header | Decoded

definition receive_audio_data ::
  "u8 list \<Rightarrow> u32 \<Rightarrow> MusicReactiveEffectUDP \<Rightarrow> decode_result \<times> MusicReactiveEffectUDP" where
  "receive_audio_data buf now st =
     (let packet = read_packet buf in
      if fst (header packet) \<noteq> of_char CHR ''A'' \<or> snd (header packet) \<noteq> of_char CHR ''S''
      then (Invalid_Header, st)
      else (Decoded,
            st\<lparr>volume := real (unat (pkt_volume packet)) / 255,
               bass_level := real (unat (bass packet)) / 255,
               mid_level := real (unat (mid packet)) / 255,
               treble_level := real (unat (treble packet)) / 255,
               packet_count := packet_count st + 1,
               last_packet_time := now\<rparr>))"

text \<open>
  The first half of \<^verbatim>\<open>send_color_command\<close>: the channels \<open>r\<close>, \<open>g\<close>, \<open>b\<close> chosen by the
  colour mode. An unknown mode leaves them at their initial 0.
\<close>

definition color_rgb :: "MusicReactiveEffectUDP \<Rightarrow> u8 \<times> u8 \<times> u8" where
  "color_rgb st =
     (if color_mode st = ''RGB Frequency'' then
        (to_uint8 (bass_level st * 255),
         to_uint8 (mid_level st * 255),
         to_uint8 (treble_level st * 255))
      else if color_mode st = ''Amplitude'' then
        (to_uint8 (volume st * 255), to_uint8 (volume st * 255), to_uint8 (volume st * 255))
      else if color_mode st = ''Rainbow Cycle'' then
        (let max_level = max (bass_level st) (max (mid_level st) (treble_level st));
             hue = (if max_level = bass_level st then 0
                    else if max_level = mid_level st then 0.33
                    else 0.66)
         in hsv_to_rgb hue 1 max_level)
      else if color_mode st = ''Bass Pulse'' then
        (if bass_level st > 0.6 then (255, 0, 0)
         else (to_uint8 (bass_level st * 100),
               to_uint8 (mid_level st * 50),
               to_uint8 (treble_level st * 150)))
      else (0, 0, 0))"

text \<open>\<^verbatim>\<open>send_mesh_command\<close>: a broadcast through the controller when it is set.\<close>

definition send_mesh_command :: "u8 list \<Rightarrow> MusicReactiveEffectUDP \<Rightarrow> MusicReactiveEffectUDP" where
  "send_mesh_command payload st =
     (if controller st then st\<lparr>mesh_sent := mesh_sent st @ [(0xFFFF, payload)]\<rparr> else st)"

definition send_color_command :: "MusicReactiveEffectUDP \<Rightarrow> MusicReactiveEffectUDP" where
  "send_color_command st =
     (let (r, g, b) = color_rgb st;
          payload = [0x93, fst (target_addr st), snd (target_addr st), 0x04, 0xff,
                     r, g, b, 0x00, 0x00, 0x00, 0x00]
      in send_mesh_command payload st)"

definition update_sensors :: "MusicReactiveEffectUDP \<Rightarrow> MusicReactiveEffectUDP" where
  "update_sensors st =
     st\<lparr>published := published st @
          [(bass_level st * 100, mid_level st * 100, treble_level st * 100)]\<rparr>"

text \<open>
  \<^verbatim>\<open>slave_loop\<close>. \<open>dgram\<close> is the datagram \<^verbatim>\<open>udp.parsePacket()\<close> found, if any; \<open>t_rx\<close> is
  the value of \<^verbatim>\<open>millis()\<close> read inside \<^verbatim>\<open>receive_audio_data\<close> and \<open>t_now\<close> the one read
  for the frame limiter. The result of \<^verbatim>\<open>receive_audio_data\<close> is not inspected, as in the
  source. The staleness test at the end of the source function only writes a log line.
  \<^verbatim>\<open>MusicReactiveEffectUDP::loop\<close> calls this function on every iteration while the object
  is running and not the master.
\<close>

definition slave_loop ::
  "u8 list option \<Rightarrow> u32 \<Rightarrow> u32 \<Rightarrow> MusicReactiveEffectUDP \<Rightarrow> MusicReactiveEffectUDP" where
  "slave_loop dgram t_rx t_now st =
     (case dgram of
        None \<Rightarrow> st
      | Some buf \<Rightarrow>
          if length buf \<ge> UDP_PACKET_SIZE then
            (let st1 = snd (receive_audio_data buf t_rx st) in
             if t_now - last_update st1 \<ge> 50
             then update_sensors (send_color_command (st1\<lparr>last_update := t_now\<rparr>))
             else st1)
          else st)"

text \<open>
  \<^verbatim>\<open>get_status\<close>. \<open>t1\<close> and \<open>t2\<close> are the two readings of \<^verbatim>\<open>millis()\<close>, in the test and in
  the quotient. The text of the answer is reduced to its case and the number printed in
  it. The quotient \<^verbatim>\<open>1000.0 / (millis() - last_packet_time)\<close> has no test of its divisor:
  with a divisor of 0 the division yields no finite number and its conversion to
  \<^verbatim>\<open>int\<close> is undefined, which the model reports as \<open>Division_By_Zero\<close>.
\<close>

datatype status = Broadcasting | Receiving int | No_signal

datatype fault = Division_By_Zero

definition get_status :: "u32 \<Rightarrow> u32 \<Rightarrow> MusicReactiveEffectUDP \<Rightarrow> fault + status" where
  "get_status t1 t2 st =
     (if is_master st then Inr Broadcasting
      else if t1 - last_packet_time st < 2000 then
        (let divisor = t2 - last_packet_time st in
         if divisor = 0 then Inl Division_By_Zero
         else Inr (Receiving (trunc_real (1000 / real (unat divisor)))))
      else Inr No_signal)"

text \<open>
  The invariant of the spec's data model for the four levels: each lies in \<open>[0, 1]\<close>.
\<close>

definition levels_in_range :: "MusicReactiveEffectUDP \<Rightarrow> bool" where
  "levels_in_range st =
     (0 \<le> volume st \<and> volume st \<le> 1 \<and> 0 \<le> bass_level st \<and> bass_level st \<le> 1 \<and>
      0 \<le> mid_level st \<and> mid_level st \<le> 1 \<and> 0 \<le> treble_level st \<and> treble_level st \<le> 1)"

text \<open>
  A run of the slave: one entry per call of \<^verbatim>\<open>slave_loop\<close>, holding the datagram found (if
  any) and the two clock readings. \<open>dispatch_times\<close> lists the clock readings of the
  calls that dispatched: those in which a colour command went to the controller (a new
  entry in \<open>mesh_sent\<close>) or the sensors were updated (a new entry in \<open>published\<close>).
\<close>

type_synonym slave_tick = "u8 list option \<times> u32 \<times> u32"

fun slave_run :: "slave_tick list \<Rightarrow> MusicReactiveEffectUDP \<Rightarrow> MusicReactiveEffectUDP" where
  "slave_run [] st = st"
| "slave_run ((dgram, t_rx, t_now) # tks) st = slave_run tks (slave_loop dgram t_rx t_now st)"

fun dispatch_times :: "slave_tick list \<Rightarrow> MusicReactiveEffectUDP \<Rightarrow> u32 list" where
  "dispatch_times [] st = []"
| "dispatch_times ((dgram, t_rx, t_now) # tks) st =
     (let st' = slave_loop dgram t_rx t_now st
      in (if length (mesh_sent st) < length (mesh_sent st') \<or>
             length (published st) < length (published st')
          then [t_now] else []) @
         dispatch_times tks st')"


section \<open>fastcon_light_optimized: the debounced light\<close>

definition DEBOUNCE_MS :: u32 where
  "DEBOUNCE_MS = 100"

definition MIN_INTERVAL_MS :: u32 where
  "MIN_INTERVAL_MS = 300"

text \<open>
  The two member functions of \<^verbatim>\<open>FastconController\<close> that \<^verbatim>\<open>write_state\<close> calls; the class
  is declared in fastcon_controller.h, which is not part of the sources, so they are
  parameters. \<open>'s\<close> is the type of the framework's light state.
\<close>

record 's FastconController =
  get_light_data :: "'s \<Rightarrow> u8 list"
  single_control :: "u8 \<Rightarrow> u8 list \<Rightarrow> u8 list"

text \<open>
  The fields of \<^verbatim>\<open>class FastconLight\<close> (the trailing underscore of the member names is
  dropped). \<open>queued\<close> records the calls \<^verbatim>\<open>controller_->queueCommand(light_id_, data)\<close>: the
  transport sends.
\<close>

record FastconLight =
  light_id :: u8
  last_sent_data :: "u8 list"
  pending_data :: "u8 list"
  last_state_change :: u32
  last_command_sent :: u32
  has_pending_command :: bool
  queued :: "(u8 \<times> u8 list) list"

definition new_light :: "u8 \<Rightarrow> FastconLight" where
  "new_light lid =
     \<lparr>light_id = lid, last_sent_data = [], pending_data = [], last_state_change = 0,
      last_command_sent = 0, has_pending_command = False, queued = []\<rparr>"

text \<open>
  \<^verbatim>\<open>FastconLight::loop\<close>; \<open>now\<close> is the value of \<^verbatim>\<open>millis()\<close>. The controller pointer is
  taken to be set (\<^verbatim>\<open>setup\<close> marks the component as failed otherwise).
\<close>

definition loop :: "u32 \<Rightarrow> FastconLight \<Rightarrow> FastconLight" where
  "loop now st =
     (if \<not> has_pending_command st then st
      else
        let time_since_change = now - last_state_change st in
        if time_since_change < DEBOUNCE_MS then st
        else
          let time_since_sent = now - last_command_sent st in
          if time_since_sent < MIN_INTERVAL_MS then st
          else if pending_data st = last_sent_data st then st\<lparr>has_pending_command := False\<rparr>
          else st\<lparr>queued := queued st @ [(light_id st, pending_data st)],
                  last_sent_data := pending_data st,
                  last_command_sent := now,
                  has_pending_command := False\<rparr>)"

text \<open>
  \<^verbatim>\<open>FastconLight::write_state\<close>; \<open>now\<close> is the value of \<^verbatim>\<open>millis()\<close>. The values the source
  reads from \<open>light_data\<close> in between are only logged.
\<close>

definition write_state :: "'s FastconController \<Rightarrow> 's \<Rightarrow> u32 \<Rightarrow> FastconLight \<Rightarrow> FastconLight" where
  "write_state ctrl state now st =
     (let light_data = get_light_data ctrl state;
          adv_data = single_control ctrl (light_id st) light_data
      in st\<lparr>pending_data := adv_data, last_state_change := now, has_pending_command := True\<rparr>)"

text \<open>A sequence of calls of \<^verbatim>\<open>loop\<close>, at the given clock readings.\<close>

fun run_loop :: "u32 list \<Rightarrow> FastconLight \<Rightarrow> FastconLight" where
  "run_loop [] st = st"
| "run_loop (now # ts) st = run_loop ts (loop now st)"

section \<open>Quantisation of a level into a byte\<close>

lemma uint_to_uint8:
  assumes "0 \<le> x" and "x < 256"
  shows "uint (to_uint8 x) = \<lfloor>x\<rfloor>"
proof -
  have lo: "0 \<le> \<lfloor>x\<rfloor>" using assms(1) by simp
  have hi: "\<lfloor>x\<rfloor> < 256" using assms(2) by (simp add: floor_less_iff)
  have "uint (word_of_int \<lfloor>x\<rfloor> :: u8) = \<lfloor>x\<rfloor> mod 2 ^ 8"
    by (simp add: uint_word_of_int)
  also have "\<dots> = \<lfloor>x\<rfloor>" using lo hi by simp
  finally show ?thesis
    using assms(1) by (simp add: to_uint8_def trunc_real_def)
qed

lemma uint_quantize:
  assumes "0 \<le> v" and "v \<le> 1"
  shows "uint (to_uint8 (v * 255)) = \<lfloor>v * 255\<rfloor>"
  using assms by (intro uint_to_uint8) auto

lemma floor_vs_round:
  fixes x :: real
  shows "\<lfloor>x\<rfloor> = (if frac x < 1 / 2 then round x else round x - 1)"
proof (cases "frac x < 1 / 2")
  case True
  then have "round x = \<lfloor>x\<rfloor>" by (simp add: round_altdef)
  with True show ?thesis by simp
next
  case False
  then have half: "1 / 2 \<le> frac x" by simp
  then have "frac x \<noteq> 0" by linarith
  then have "x \<notin> \<int>" using frac_eq_0_iff [of x] by blast
  then have "x \<noteq> of_int \<lfloor>x\<rfloor>" by (metis Ints_of_int)
  then have c: "\<lceil>x\<rceil> = \<lfloor>x\<rfloor> + 1" by (simp add: ceiling_altdef)
  have "round x = \<lceil>x\<rceil>" using half by (simp only: round_altdef if_True)
  with c False show ?thesis by simp
qed

lemma uint_quantize_round:
  assumes "0 \<le> v" and "v \<le> 1"
  shows "uint (to_uint8 (v * 255)) =
         (if frac (v * 255) < 1 / 2 then round (v * 255) else round (v * 255) - 1)"
  unfolding uint_quantize [OF assms] by (rule floor_vs_round)


text \<open>
  C5 (as amended). For every state whose four levels lie in \<open>[0, 1]\<close>, the byte that
  \<^verbatim>\<open>broadcast_audio_data\<close> writes for volume, bass, mid and treble is the integer part
  \<open>\<lfloor>value * 255\<rfloor>\<close> of the scaled level, not its nearest integer: it equals
  \<open>round (value * 255)\<close> when the fractional part of \<open>value * 255\<close> is below one half and
  is one less otherwise.
\<close>

theorem encode_truncates:
  assumes "levels_in_range st"
  shows "uint (pkt_volume (build_packet st)) = \<lfloor>volume st * 255\<rfloor> \<and>
         uint (bass (build_packet st)) = \<lfloor>bass_level st * 255\<rfloor> \<and>
         uint (mid (build_packet st)) = \<lfloor>mid_level st * 255\<rfloor> \<and>
         uint (treble (build_packet st)) = \<lfloor>treble_level st * 255\<rfloor> \<and>
         uint (pkt_volume (build_packet st)) =
           (if frac (volume st * 255) < 1 / 2 then round (volume st * 255)
            else round (volume st * 255) - 1) \<and>
         uint (bass (build_packet st)) =
           (if frac (bass_level st * 255) < 1 / 2 then round (bass_level st * 255)
            else round (bass_level st * 255) - 1) \<and>
         uint (mid (build_packet st)) =
           (if frac (mid_level st * 255) < 1 / 2 then round (mid_level st * 255)
            else round (mid_level st * 255) - 1) \<and>
         uint (treble (build_packet st)) =
           (if frac (treble_level st * 255) < 1 / 2 then round (treble_level st * 255)
            else round (treble_level st * 255) - 1)"
proof -
  have v: "0 \<le> volume st" "volume st \<le> 1"
    and b: "0 \<le> bass_level st" "bass_level st \<le> 1"
    and m: "0 \<le> mid_level st" "mid_level st \<le> 1"
    and t: "0 \<le> treble_level st" "treble_level st \<le> 1"
    using assms by (simp_all add: levels_in_range_def)
  have f: "pkt_volume (build_packet st) = to_uint8 (volume st * 255)"
    "bass (build_packet st) = to_uint8 (bass_level st * 255)"
    "mid (build_packet st) = to_uint8 (mid_level st * 255)"
    "treble (build_packet st) = to_uint8 (treble_level st * 255)"
    by (simp_all add: build_packet_def)
  show ?thesis
    unfolding f
    using uint_quantize [OF v] uint_quantize [OF b] uint_quantize [OF m] uint_quantize [OF t]
      uint_quantize_round [OF v] uint_quantize_round [OF b] uint_quantize_round [OF m]
      uint_quantize_round [OF t]
    by blast
qed

theorem encode_truncates_witness:
  "levels_in_range ((new_effect True)
      \<lparr>bass_level := 1 / 4, mid_level := 1, treble_level := 0, volume := 1 / 2\<rparr>) \<and>
   uint (pkt_volume (build_packet ((new_effect True)
      \<lparr>bass_level := 1 / 4, mid_level := 1, treble_level := 0, volume := 1 / 2\<rparr>))) = 127 \<and>
   uint (bass (build_packet ((new_effect True)
      \<lparr>bass_level := 1 / 4, mid_level := 1, treble_level := 0, volume := 1 / 2\<rparr>))) = 63"
  using encode_truncates [of "(new_effect True)
      \<lparr>bass_level := 1 / 4, mid_level := 1, treble_level := 0, volume := 1 / 2\<rparr>"]
  by (simp add: levels_in_range_def new_effect_def)

text \<open>
  C5 (as stated) fails: at the level 0.5, which lies in \<open>[0, 1]\<close> and is exact in binary
  floating point, \<open>value * 255\<close> is 127.5; the byte written is 127 while
  \<open>round (value * 255)\<close> is 128.
\<close>

theorem encode_round_counterexample:
  "levels_in_range ((new_effect True)\<lparr>volume := 1 / 2\<rparr>) \<and>
   uint (pkt_volume (build_packet ((new_effect True)\<lparr>volume := 1 / 2\<rparr>))) = 127 \<and>
   round (volume ((new_effect True)\<lparr>volume := 1 / 2\<rparr>) * 255) = 128 \<and>
   uint (pkt_volume (build_packet ((new_effect True)\<lparr>volume := 1 / 2\<rparr>))) \<noteq>
     round (volume ((new_effect True)\<lparr>volume := 1 / 2\<rparr>) * 255)"
  by (simp add: build_packet_def new_effect_def to_uint8_def trunc_real_def round_def
      levels_in_range_def)

section \<open>The synchronisation packet\<close>

lemma unat_quantize:
  assumes "0 \<le> v" and "v \<le> 1"
  shows "real (unat (to_uint8 (v * 255))) = of_int \<lfloor>v * 255\<rfloor>"
proof -
  have "0 \<le> \<lfloor>v * 255\<rfloor>" using assms(1) by simp
  then show ?thesis
    using uint_quantize [OF assms] by (simp add: unat_eq_nat_uint)
qed

lemma dequantize_error:
  assumes "0 \<le> v" and "v \<le> 1"
  shows "0 \<le> v - real (unat (to_uint8 (v * 255))) / 255"
    and "v - real (unat (to_uint8 (v * 255))) / 255 < 1 / 255"
proof -
  define q where "q = real (unat (to_uint8 (v * 255)))"
  have q: "q = of_int \<lfloor>v * 255\<rfloor>"
    unfolding q_def by (rule unat_quantize [OF assms])
  have le: "q \<le> v * 255" unfolding q by (rule of_int_floor_le)
  have lt: "v * 255 < q + 1" unfolding q by linarith
  show "0 \<le> v - real (unat (to_uint8 (v * 255))) / 255"
    using le unfolding q_def [symmetric] by (simp add: field_simps)
  show "v - real (unat (to_uint8 (v * 255))) / 255 < 1 / 255"
    using lt unfolding q_def [symmetric] by (simp add: field_simps)
qed

lemma dequantize_abs:
  assumes "0 \<le> v" and "v \<le> 1"
  shows "\<bar>real (unat (to_uint8 (v * 255))) / 255 - v\<bar> \<le> 1 / 255"
  using dequantize_error [OF assms] by linarith

lemma length_packet_bytes: "length (packet_bytes (build_packet st)) = 24"
  by (simp add: packet_bytes_def build_packet_def)

lemma read_packet_bytes:
  "length (fft_bins p) = 18 \<Longrightarrow> read_packet (packet_bytes p) = p"
  by (simp add: read_packet_def packet_bytes_def)

text \<open>
  C1. For every state \<open>m\<close> of the sender whose four levels lie in \<open>[0, 1]\<close>: the datagram
  \<^verbatim>\<open>broadcast_audio_data\<close> sends has 24 bytes, \<^verbatim>\<open>receive_audio_data\<close> accepts it, and the
  receiver's volume, bass, mid and treble are then each within \<open>1 / 255\<close> of the sender's.
  (Levels are reals here, as everywhere in this theory.)
\<close>

theorem roundtrip:
  assumes "levels_in_range m"
  shows "let buf = packet_bytes (build_packet m);
             (res, s') = receive_audio_data buf now s
         in udp_sent (broadcast_audio_data m) = udp_sent m @ [buf] \<and> length buf = 24 \<and>
            res = Decoded \<and>
            \<bar>volume s' - volume m\<bar> \<le> 1 / 255 \<and>
            \<bar>bass_level s' - bass_level m\<bar> \<le> 1 / 255 \<and>
            \<bar>mid_level s' - mid_level m\<bar> \<le> 1 / 255 \<and>
            \<bar>treble_level s' - treble_level m\<bar> \<le> 1 / 255"
proof -
  have rp: "read_packet (packet_bytes (build_packet m)) = build_packet m"
    by (rule read_packet_bytes) (simp add: build_packet_def)
  have v: "\<bar>real (unat (to_uint8 (volume m * 255))) / 255 - volume m\<bar> \<le> 1 / 255"
    using assms by (intro dequantize_abs) (simp_all add: levels_in_range_def)
  have b: "\<bar>real (unat (to_uint8 (bass_level m * 255))) / 255 - bass_level m\<bar> \<le> 1 / 255"
    using assms by (intro dequantize_abs) (simp_all add: levels_in_range_def)
  have mi: "\<bar>real (unat (to_uint8 (mid_level m * 255))) / 255 - mid_level m\<bar> \<le> 1 / 255"
    using assms by (intro dequantize_abs) (simp_all add: levels_in_range_def)
  have t: "\<bar>real (unat (to_uint8 (treble_level m * 255))) / 255 - treble_level m\<bar> \<le> 1 / 255"
    using assms by (intro dequantize_abs) (simp_all add: levels_in_range_def)
  show ?thesis
    using v b mi t
    by (simp add: Let_def receive_audio_data_def rp length_packet_bytes broadcast_audio_data_def)
       (simp add: build_packet_def)
qed

theorem roundtrip_witness:
  "levels_in_range ((new_effect True)
      \<lparr>bass_level := 1 / 4, mid_level := 1, treble_level := 0, volume := 1 / 2\<rparr>) \<and>
   (let buf = packet_bytes (build_packet ((new_effect True)
      \<lparr>bass_level := 1 / 4, mid_level := 1, treble_level := 0, volume := 1 / 2\<rparr>));
        (res, s') = receive_audio_data buf 7 (new_effect False)
    in res = Decoded \<and> \<bar>volume s' - 1 / 2\<bar> \<le> 1 / 255 \<and> \<bar>bass_level s' - 1 / 4\<bar> \<le> 1 / 255)"
  using roundtrip [of "(new_effect True)
      \<lparr>bass_level := 1 / 4, mid_level := 1, treble_level := 0, volume := 1 / 2\<rparr>" 7 "new_effect False"]
  by (simp add: levels_in_range_def new_effect_def Let_def split_beta)

text \<open>
  C2. For every buffer of at least 24 bytes whose first two bytes are not \<open>'A'\<close>, \<open>'S'\<close>,
  \<^verbatim>\<open>receive_audio_data\<close> leaves by its early return and the receiver is the same as before:
  in particular the four levels, \<open>packet_count\<close> and \<open>last_packet_time\<close> keep their values.
\<close>

theorem bad_header_rejected:
  assumes "UDP_PACKET_SIZE \<le> length buf"
      and "(buf ! 0, buf ! 1) \<noteq> (of_char CHR ''A'', of_char CHR ''S'')"
  shows "receive_audio_data buf now st = (Invalid_Header, st) \<and>
         (let st' = snd (receive_audio_data buf now st)
          in volume st' = volume st \<and> bass_level st' = bass_level st \<and>
             mid_level st' = mid_level st \<and> treble_level st' = treble_level st \<and>
             packet_count st' = packet_count st \<and> last_packet_time st' = last_packet_time st)"
  using assms by (auto simp add: receive_audio_data_def read_packet_def Let_def)

theorem bad_header_rejected_witness:
  "UDP_PACKET_SIZE \<le> length (65 # 88 # replicate 22 (200 :: u8)) \<and>
   receive_audio_data (65 # 88 # replicate 22 200) 5
       ((new_effect False)\<lparr>volume := 1 / 2, packet_count := 3\<rparr>) =
     (Invalid_Header, (new_effect False)\<lparr>volume := 1 / 2, packet_count := 3\<rparr>)"
  using bad_header_rejected [of "65 # 88 # replicate 22 200" 5
      "(new_effect False)\<lparr>volume := 1 / 2, packet_count := 3\<rparr>"]
  by (simp add: UDP_PACKET_SIZE_def)

section \<open>The levels stay in range\<close>

text \<open>
  The levels are 0 in a new object, and both functions that write them, the analysis of
  the master and the decoder of the slave, leave them in \<open>[0, 1]\<close>.
\<close>

lemma constrain_unit: "0 \<le> constrain x 0 1 \<and> constrain x 0 1 \<le> 1"
  by (simp add: constrain_def)

lemma levels_in_range_new_effect: "levels_in_range (new_effect m)"
  by (simp add: levels_in_range_def new_effect_def)

lemma levels_in_range_analyze: "levels_in_range (analyze_frequencies fft st)"
  by (simp add: levels_in_range_def analyze_frequencies_def Let_def constrain_def split_beta)

lemma byte_level_range: "0 \<le> real (unat (w :: u8)) / 255 \<and> real (unat w) / 255 \<le> 1"
proof -
  define n where "n = unat w"
  have "unat w < 2 ^ LENGTH(8)" by (rule unsigned_less)
  then have "n \<le> 255" by (simp add: n_def)
  then have "0 \<le> real n / 255 \<and> real n / 255 \<le> 1" by simp
  then show ?thesis unfolding n_def .
qed

lemma levels_in_range_receive:
  assumes "levels_in_range st"
  shows "levels_in_range (snd (receive_audio_data buf now st))"
proof (cases "fst (receive_audio_data buf now st)")
  case Invalid_Header
  then have "snd (receive_audio_data buf now st) = st"
    by (auto simp: receive_audio_data_def Let_def split: if_splits)
  with assms show ?thesis by simp
next
  case Decoded
  then have "snd (receive_audio_data buf now st) =
      st\<lparr>volume := real (unat (pkt_volume (read_packet buf))) / 255,
         bass_level := real (unat (bass (read_packet buf))) / 255,
         mid_level := real (unat (mid (read_packet buf))) / 255,
         treble_level := real (unat (treble (read_packet buf))) / 255,
         packet_count := packet_count st + 1,
         last_packet_time := now\<rparr>"
    by (auto simp: receive_audio_data_def Let_def split: if_splits)
  then show ?thesis
    using byte_level_range [of "pkt_volume (read_packet buf)"]
      byte_level_range [of "bass (read_packet buf)"]
      byte_level_range [of "mid (read_packet buf)"]
      byte_level_range [of "treble (read_packet buf)"]
    by (simp add: levels_in_range_def)
qed

text \<open>
  C6. For every buffer of 256 samples and every sensitivity in \<open>[0, 10]\<close>, whatever the
  transform library returns for the frame (arrays of the same length), the levels after
  \<^verbatim>\<open>analyze_frequencies\<close> are in \<open>[0, 1]\<close>: bass, mid, treble and volume in music_reactive.h,
  bass, mid and treble in fft_analyzer.h. A real in \<open>[0, 1]\<close> is neither negative nor
  undefined; the floating-point notion of NaN has no counterpart in the model.
\<close>

theorem analysis_in_range:
  assumes "length samples_buffer = SAMPLES"
      and "\<And>re im. length (fst (fft re im)) = length re"
      and "0 \<le> sensitivity st" and "sensitivity st \<le> 10"
      and "0 \<le> MusicReactiveEffect.sensitivity s1" and "MusicReactiveEffect.sensitivity s1 \<le> 10"
  shows "(let st' = analyze_frequencies fft (sample_audio samples_buffer st)
          in 0 \<le> bass_level st' \<and> bass_level st' \<le> 1 \<and>
             0 \<le> mid_level st' \<and> mid_level st' \<le> 1 \<and>
             0 \<le> treble_level st' \<and> treble_level st' \<le> 1 \<and>
             0 \<le> volume st' \<and> volume st' \<le> 1) \<and>
         (let s1' = analyze_frequencies_single fft (sample_audio_single samples_buffer s1)
          in 0 \<le> MusicReactiveEffect.bass_level s1' \<and> MusicReactiveEffect.bass_level s1' \<le> 1 \<and>
             0 \<le> MusicReactiveEffect.mid_level s1' \<and> MusicReactiveEffect.mid_level s1' \<le> 1 \<and>
             0 \<le> MusicReactiveEffect.treble_level s1' \<and>
             MusicReactiveEffect.treble_level s1' \<le> 1)"
proof -
  have a: "levels_in_range (analyze_frequencies fft (sample_audio samples_buffer st))"
    by (rule levels_in_range_analyze)
  have b: "\<And>s. 0 \<le> MusicReactiveEffect.bass_level (analyze_frequencies_single fft s) \<and>
      MusicReactiveEffect.bass_level (analyze_frequencies_single fft s) \<le> 1 \<and>
      0 \<le> MusicReactiveEffect.mid_level (analyze_frequencies_single fft s) \<and>
      MusicReactiveEffect.mid_level (analyze_frequencies_single fft s) \<le> 1 \<and>
      0 \<le> MusicReactiveEffect.treble_level (analyze_frequencies_single fft s) \<and>
      MusicReactiveEffect.treble_level (analyze_frequencies_single fft s) \<le> 1"
    by (simp add: analyze_frequencies_single_def Let_def constrain_def split_beta)
  show ?thesis
    using a b [of "sample_audio_single samples_buffer s1"]
    by (simp add: levels_in_range_def Let_def)
qed

theorem analysis_in_range_witness:
  "length (replicate 256 (1073741824 :: 32 word)) = SAMPLES \<and>
   levels_in_range (analyze_frequencies (\<lambda>re im. (map abs re, im))
      (sample_audio (replicate 256 1073741824) ((new_effect True)\<lparr>sensitivity := 10\<rparr>)))"
  using analysis_in_range [of "replicate 256 1073741824" "\<lambda>re im. (map abs re, im)"
      "(new_effect True)\<lparr>sensitivity := 10\<rparr>"
      "\<lparr>MusicReactiveEffect.vReal = [], vImag = [], bass_level = 0, mid_level = 0,
        treble_level = 0, sensitivity = 1, update_rate = 10, running = False,
        color_mode = ''RGB Frequency'', target_addr = (0x2a, 0xa8), last_update = 0,
        colors_sent = [], published = []\<rparr>"]
  by (simp add: SAMPLES_def new_effect_def levels_in_range_def Let_def)

section \<open>Colour mapping\<close>

text \<open>
  C8 (as amended). For every state whose levels lie in \<open>[0, 1]\<close> and whose bass is at most
  0.6, the Bass Pulse products stay far below 256: \<open>bass * 100 \<le> 60\<close>, \<open>mid * 50 \<le> 50\<close>
  and \<open>treble * 150 \<le> 150\<close>. The casts therefore never wrap: each channel is the integer
  part of its product.
\<close>

theorem bass_pulse_no_wraparound:
  assumes "levels_in_range st"
      and "color_mode st = ''Bass Pulse''"
      and "bass_level st \<le> 0.6"
  shows "bass_level st * 100 \<le> 60 \<and> mid_level st * 50 \<le> 50 \<and> treble_level st * 150 \<le> 150 \<and>
         (case color_rgb st of (r, g, b) \<Rightarrow>
            uint r = \<lfloor>bass_level st * 100\<rfloor> \<and> uint g = \<lfloor>mid_level st * 50\<rfloor> \<and>
            uint b = \<lfloor>treble_level st * 150\<rfloor>)"
proof -
  have b: "0 \<le> bass_level st * 100" "bass_level st * 100 < 256"
    and m: "0 \<le> mid_level st * 50" "mid_level st * 50 < 256"
    and t: "0 \<le> treble_level st * 150" "treble_level st * 150 < 256"
    using assms by (simp_all add: levels_in_range_def)
  have rgb: "color_rgb st = (to_uint8 (bass_level st * 100), to_uint8 (mid_level st * 50),
      to_uint8 (treble_level st * 150))"
    using assms(2,3) by (simp add: color_rgb_def)
  have bounds: "bass_level st * 100 \<le> 60 \<and> mid_level st * 50 \<le> 50 \<and> treble_level st * 150 \<le> 150"
    using assms by (simp add: levels_in_range_def)
  show ?thesis
    using bounds uint_to_uint8 [OF b] uint_to_uint8 [OF m] uint_to_uint8 [OF t]
    by (simp add: rgb)
qed

theorem bass_pulse_no_wraparound_witness:
  "levels_in_range ((new_effect False)\<lparr>color_mode := ''Bass Pulse'', bass_level := 1 / 2,
       mid_level := 1, treble_level := 1\<rparr>) \<and>
   color_rgb ((new_effect False)\<lparr>color_mode := ''Bass Pulse'', bass_level := 1 / 2,
       mid_level := 1, treble_level := 1\<rparr>) = (50, 50, 150)"
  using bass_pulse_no_wraparound [of "(new_effect False)\<lparr>color_mode := ''Bass Pulse'',
       bass_level := 1 / 2, mid_level := 1, treble_level := 1\<rparr>"]
  by (simp add: levels_in_range_def new_effect_def color_rgb_def to_uint8_def trunc_real_def)

text \<open>
  C8 (as stated) fails: no state with levels in \<open>[0, 1]\<close> and bass at most 0.6 makes
  \<open>mid * 50\<close> or \<open>treble * 150\<close> exceed 255.
\<close>

theorem bass_pulse_overflow_counterexample:
  "\<not> (\<exists>st. levels_in_range st \<and> bass_level st \<le> 0.6 \<and>
           (255 < mid_level st * 50 \<or> 255 < treble_level st * 150))"
  by (auto simp add: levels_in_range_def)

text \<open>
  C9. With bass 0.9, mid 0.1 and treble 0.1 in the mode RGB Frequency, both
  \<^verbatim>\<open>send_color_command\<close> functions compute the colour (229, 25, 25): each channel is the
  integer part of its level times 255 (229.5, 25.5, 25.5), less than 1 away from that
  product and 1 away from the target (230, 26, 26). The command payload built from them
  carries these three bytes.
\<close>

theorem rgb_frequency_scenario:
  assumes "color_mode st = ''RGB Frequency''"
      and "bass_level st = 0.9" and "mid_level st = 0.1" and "treble_level st = 0.1"
      and "MusicReactiveEffect.color_mode s1 = ''RGB Frequency''"
      and "MusicReactiveEffect.bass_level s1 = 0.9" and "MusicReactiveEffect.mid_level s1 = 0.1"
      and "MusicReactiveEffect.treble_level s1 = 0.1"
  shows "color_rgb st = (229, 25, 25) \<and> color_rgb_single s1 = (229, 25, 25) \<and>
         (case color_rgb st of (r, g, b) \<Rightarrow>
            \<bar>uint r - 230\<bar> \<le> 1 \<and> \<bar>uint g - 26\<bar> \<le> 1 \<and> \<bar>uint b - 26\<bar> \<le> 1 \<and>
            \<bar>real_of_int (uint r) - bass_level st * 255\<bar> < 1 \<and>
            \<bar>real_of_int (uint g) - mid_level st * 255\<bar> < 1 \<and>
            \<bar>real_of_int (uint b) - treble_level st * 255\<bar> < 1) \<and>
         (controller st \<longrightarrow>
            mesh_sent (send_color_command st) = mesh_sent st @
              [(0xFFFF, [0x93, fst (target_addr st), snd (target_addr st), 0x04, 0xff,
                         229, 25, 25, 0, 0, 0, 0])]) \<and>
         colors_sent (send_color_command_single s1) = colors_sent s1 @
           [[0x93, fst (MusicReactiveEffect.target_addr s1),
             snd (MusicReactiveEffect.target_addr s1), 0x04, 0xff, 229, 25, 25, 0, 0, 0, 0]]"
proof -
  have q9: "to_uint8 (0.9 * 255) = 229" and q1: "to_uint8 (0.1 * 255) = 25"
    by (simp_all add: to_uint8_def trunc_real_def)
  have rgb: "color_rgb st = (229, 25, 25)"
    unfolding color_rgb_def assms q9 q1 by simp
  have rgb1: "color_rgb_single s1 = (229, 25, 25)"
    unfolding color_rgb_single_def assms Let_def q9 q1 by simp
  have near: "\<bar>real_of_int (uint (229 :: u8)) - 0.9 * 255\<bar> < 1"
    "\<bar>real_of_int (uint (25 :: u8)) - 0.1 * 255\<bar> < 1"
    by simp_all
  have levels: "\<bar>real_of_int (uint (229 :: u8)) - bass_level st * 255\<bar> < 1 \<and>
      \<bar>real_of_int (uint (25 :: u8)) - mid_level st * 255\<bar> < 1 \<and>
      \<bar>real_of_int (uint (25 :: u8)) - treble_level st * 255\<bar> < 1"
    using near by (simp only: assms)
  have sent: "controller st \<longrightarrow>
      mesh_sent (send_color_command st) = mesh_sent st @
        [(0xFFFF, [0x93, fst (target_addr st), snd (target_addr st), 0x04, 0xff,
                   229, 25, 25, 0, 0, 0, 0])]"
    by (simp add: send_color_command_def send_mesh_command_def rgb)
  have sent1: "colors_sent (send_color_command_single s1) = colors_sent s1 @
      [[0x93, fst (MusicReactiveEffect.target_addr s1),
        snd (MusicReactiveEffect.target_addr s1), 0x04, 0xff, 229, 25, 25, 0, 0, 0, 0]]"
    by (simp add: send_color_command_single_def rgb1)
  show ?thesis
    using levels sent sent1 by (simp add: rgb rgb1)
qed

theorem rgb_frequency_scenario_witness:
  "color_rgb ((new_effect False)\<lparr>bass_level := 0.9, mid_level := 0.1, treble_level := 0.1,
      controller := True\<rparr>) = (229, 25, 25) \<and>
   mesh_sent (send_color_command ((new_effect False)\<lparr>bass_level := 0.9, mid_level := 0.1,
      treble_level := 0.1, controller := True\<rparr>)) =
     [(0xFFFF, [0x93, 0x2a, 0xa8, 0x04, 0xff, 229, 25, 25, 0, 0, 0, 0])]"
  using rgb_frequency_scenario [of "(new_effect False)\<lparr>bass_level := 0.9, mid_level := 0.1,
      treble_level := 0.1, controller := True\<rparr>"
      "\<lparr>MusicReactiveEffect.vReal = [], vImag = [], bass_level = 0.9, mid_level = 0.1,
        treble_level = 0.1, sensitivity = 1, update_rate = 10, running = True,
        color_mode = ''RGB Frequency'', target_addr = (0x2a, 0xa8), last_update = 0,
        colors_sent = [], published = []\<rparr>"]
  by (simp add: new_effect_def)


section \<open>Link status\<close>

text \<open>
  C10. In the slave role, when both clock readings of \<^verbatim>\<open>get_status\<close> equal
  \<open>last_packet_time\<close>, the test \<open>millis() - last_packet_time < 2000\<close> passes and the
  quotient is taken with divisor 0. This is the case in particular when the status is
  asked for in the millisecond in which \<^verbatim>\<open>receive_audio_data\<close> accepted a packet.
\<close>

theorem status_divides_by_zero:
  assumes "\<not> is_master st"
      and "(buf ! 0, buf ! 1) = (of_char CHR ''A'', of_char CHR ''S'')"
  shows "get_status (last_packet_time st) (last_packet_time st) st = Inl Division_By_Zero \<and>
         get_status now now (snd (receive_audio_data buf now st)) = Inl Division_By_Zero"
  using assms by (simp add: get_status_def receive_audio_data_def read_packet_def Let_def)

theorem status_divides_by_zero_witness:
  "\<not> is_master (new_effect False) \<and>
   get_status 1234 1234 (snd (receive_audio_data (65 # 83 # replicate 22 128) 1234
      (new_effect False))) = Inl Division_By_Zero"
  using status_divides_by_zero [of "new_effect False" "65 # 83 # replicate 22 128" 1234]
  by (simp add: new_effect_def)

section \<open>The slave's frame limiter\<close>

text \<open>
  One call of \<^verbatim>\<open>slave_loop\<close> either dispatches, which requires
  \<open>50 \<le> t_now - last_update\<close>, sets \<open>last_update\<close> to \<open>t_now\<close>, hands one colour command
  computed from the current levels to the controller (when it is set) and updates the
  sensors once; or it does none of this and leaves \<open>mesh_sent\<close>, \<open>published\<close> and
  \<open>last_update\<close> as they were.
\<close>

lemma color_rgb_effects:
  "color_rgb (st\<lparr>mesh_sent := ms\<rparr>) = color_rgb st"
  "color_rgb (st\<lparr>published := ps\<rparr>) = color_rgb st"
  by (simp_all add: color_rgb_def Let_def cong: if_cong)

text \<open>What a dispatch does to a state whose \<open>last_update\<close> was just set.\<close>

lemma dispatch_effects:
  "published (update_sensors (send_color_command st)) =
     published st @ [(bass_level st * 100, mid_level st * 100, treble_level st * 100)]"
  "mesh_sent (update_sensors (send_color_command st)) =
     mesh_sent st @
     (if controller st
      then [(0xFFFF, [0x93, fst (target_addr st), snd (target_addr st), 0x04, 0xff,
                      fst (color_rgb st), fst (snd (color_rgb st)), snd (snd (color_rgb st)),
                      0, 0, 0, 0])]
      else [])"
  "last_update (update_sensors (send_color_command st)) = last_update st"
  "controller (update_sensors (send_color_command st)) = controller st"
  "color_rgb (update_sensors (send_color_command st)) = color_rgb st"
  "bass_level (update_sensors (send_color_command st)) = bass_level st"
  "mid_level (update_sensors (send_color_command st)) = mid_level st"
  "treble_level (update_sensors (send_color_command st)) = treble_level st"
  "volume (update_sensors (send_color_command st)) = volume st"
  "packet_count (update_sensors (send_color_command st)) = packet_count st"
  "last_packet_time (update_sensors (send_color_command st)) = last_packet_time st"
  by (simp_all add: send_color_command_def send_mesh_command_def update_sensors_def Let_def
      split_beta color_rgb_effects)

lemma receive_keeps:
  "published (snd (receive_audio_data buf now st)) = published st"
  "mesh_sent (snd (receive_audio_data buf now st)) = mesh_sent st"
  "last_update (snd (receive_audio_data buf now st)) = last_update st"
  "controller (snd (receive_audio_data buf now st)) = controller st"
  "target_addr (snd (receive_audio_data buf now st)) = target_addr st"
  by (simp_all add: receive_audio_data_def Let_def)

lemma color_rgb_last_update: "color_rgb (st\<lparr>last_update := t\<rparr>) = color_rgb st"
  by (simp add: color_rgb_def Let_def cong: if_cong)

lemma slave_loop_dispatch:
  "(50 \<le> tn - last_update st \<and> last_update (slave_loop d tr tn st) = tn \<and>
    published (slave_loop d tr tn st) =
      published st @ [(bass_level (slave_loop d tr tn st) * 100,
                       mid_level (slave_loop d tr tn st) * 100,
                       treble_level (slave_loop d tr tn st) * 100)] \<and>
    mesh_sent (slave_loop d tr tn st) =
      mesh_sent st @
      (if controller st
       then [(0xFFFF, [0x93, fst (target_addr st), snd (target_addr st), 0x04, 0xff,
                       fst (color_rgb (slave_loop d tr tn st)),
                       fst (snd (color_rgb (slave_loop d tr tn st))),
                       snd (snd (color_rgb (slave_loop d tr tn st))), 0, 0, 0, 0])]
       else [])) \<or>
   (published (slave_loop d tr tn st) = published st \<and>
    mesh_sent (slave_loop d tr tn st) = mesh_sent st \<and>
    last_update (slave_loop d tr tn st) = last_update st)"
proof (cases d)
  case None
  then show ?thesis by (simp add: slave_loop_def)
next
  case (Some buf)
  define st1 where "st1 = snd (receive_audio_data buf tr st)"
  have k: "published st1 = published st" "mesh_sent st1 = mesh_sent st"
    "last_update st1 = last_update st" "controller st1 = controller st"
    "target_addr st1 = target_addr st"
    unfolding st1_def by (rule receive_keeps)+
  show ?thesis
  proof (cases "UDP_PACKET_SIZE \<le> length buf \<and> 50 \<le> tn - last_update st")
    case True
    then have "slave_loop d tr tn st =
        update_sensors (send_color_command (st1\<lparr>last_update := tn\<rparr>))"
      by (simp add: slave_loop_def Some st1_def [symmetric] k Let_def)
    then show ?thesis
      using True by (simp add: dispatch_effects k color_rgb_last_update)
  next
    case False
    then have "slave_loop d tr tn st = st \<or> slave_loop d tr tn st = st1"
      by (auto simp add: slave_loop_def Some st1_def [symmetric] k Let_def)
    then show ?thesis
    proof
      assume e: "slave_loop d tr tn st = st"
      show ?thesis unfolding e by simp
    next
      assume e: "slave_loop d tr tn st = st1"
      show ?thesis unfolding e by (simp add: k)
    qed
  qed
qed

lemma slave_loop_controller: "controller (slave_loop d tr tn st) = controller st"
  by (simp add: slave_loop_def receive_keeps dispatch_effects Let_def split: option.splits)

lemma slave_loop_idle:
  assumes "tn - last_update st < 50"
  shows "mesh_sent (slave_loop d tr tn st) = mesh_sent st \<and>
         published (slave_loop d tr tn st) = published st \<and>
         last_update (slave_loop d tr tn st) = last_update st"
  using assms slave_loop_dispatch [of tn st d tr] by (auto simp add: not_le [symmetric])

lemma dispatch_times_step:
  "dispatch_times ((d, tr, tn) # tks) st =
     (if published (slave_loop d tr tn st) = published st then [] else [tn]) @
     dispatch_times tks (slave_loop d tr tn st)"
  using slave_loop_dispatch [of tn st d tr] by (auto simp add: Let_def)

lemma length_Suc_neq: "length xs = Suc (length ys) \<Longrightarrow> xs \<noteq> ys"
  by auto

lemma slave_loop_cases:
  obtains (dispatch) "50 \<le> tn - last_update st" "last_update (slave_loop d tr tn st) = tn"
      "length (published (slave_loop d tr tn st)) = Suc (length (published st))"
      "length (mesh_sent (slave_loop d tr tn st)) =
         length (mesh_sent st) + (if controller st then 1 else 0)"
    | (idle) "published (slave_loop d tr tn st) = published st"
      "mesh_sent (slave_loop d tr tn st) = mesh_sent st"
      "last_update (slave_loop d tr tn st) = last_update st"
  using slave_loop_dispatch [of tn st d tr] by auto

lemma successively_dispatch_word:
  "successively (\<lambda>a b. 50 \<le> b - a) (last_update st # dispatch_times tks st)"
proof (induction tks arbitrary: st)
  case Nil
  show ?case by simp
next
  case (Cons tk tks)
  obtain d tr tn where tk: "tk = (d, tr, tn)" by (cases tk)
  let ?st' = "slave_loop d tr tn st"
  show ?case
  proof (cases rule: slave_loop_cases [of tn st d tr])
    case dispatch
    have ne: "published ?st' \<noteq> published st"
      using dispatch(3) by (rule length_Suc_neq)
    from Cons.IH [of ?st'] dispatch
    have "successively (\<lambda>a b. 50 \<le> b - a) (tn # dispatch_times tks ?st')" by simp
    with dispatch ne show ?thesis
      by (simp add: tk dispatch_times_step del: dispatch_times.simps)
  next
    case idle
    from Cons.IH [of ?st'] idle
    have "successively (\<lambda>a b. 50 \<le> b - a) (last_update st # dispatch_times tks ?st')" by simp
    with idle show ?thesis
      by (simp add: tk dispatch_times_step del: dispatch_times.simps)
  qed
qed

lemma elapsed_nat:
  fixes a b :: u32
  assumes "unat a \<le> unat b" and "50 \<le> b - a"
  shows "unat a + 50 \<le> unat b"
proof -
  have "a \<le> b" using assms(1) by (simp add: word_le_nat_alt)
  then have "unat (b - a) = unat b - unat a" by (rule unat_sub)
  moreover have "unat (50 :: u32) \<le> unat (b - a)"
    using assms(2) by (simp only: word_le_nat_alt)
  ultimately show ?thesis using assms(1) by simp
qed

lemma successively_dispatch_nat:
  assumes "sorted (map unat (last_update st # map (\<lambda>tk. snd (snd tk)) tks))"
  shows "successively (\<lambda>a b. unat a + 50 \<le> unat b) (last_update st # dispatch_times tks st)"
  using assms
proof (induction tks arbitrary: st)
  case Nil
  show ?case by simp
next
  case (Cons tk tks)
  obtain d tr tn where tk: "tk = (d, tr, tn)" by (cases tk)
  let ?st' = "slave_loop d tr tn st"
  have le: "unat (last_update st) \<le> unat tn"
    and later: "\<forall>x\<in>set tks. unat (last_update st) \<le> unat (snd (snd x))"
    and st_tl: "sorted (map unat (tn # map (\<lambda>tk. snd (snd tk)) tks))"
    using Cons.prems by (simp_all add: tk)
  show ?case
  proof (cases rule: slave_loop_cases [of tn st d tr])
    case dispatch
    have ne: "published ?st' \<noteq> published st"
      using dispatch(3) by (rule length_Suc_neq)
    have gap: "unat (last_update st) + 50 \<le> unat tn"
      using le dispatch(1) by (rule elapsed_nat)
    have "sorted (map unat (last_update ?st' # map (\<lambda>tk. snd (snd tk)) tks))"
      using st_tl dispatch by simp
    from Cons.IH [OF this] dispatch
    have "successively (\<lambda>a b. unat a + 50 \<le> unat b) (tn # dispatch_times tks ?st')" by simp
    with gap ne show ?thesis
      by (simp add: tk dispatch_times_step del: dispatch_times.simps)
  next
    case idle
    have "sorted (map unat (last_update ?st' # map (\<lambda>tk. snd (snd tk)) tks))"
      using st_tl later idle by simp
    from Cons.IH [OF this] idle
    have "successively (\<lambda>a b. unat a + 50 \<le> unat b)
        (last_update st # dispatch_times tks ?st')" by simp
    with idle show ?thesis
      by (simp add: tk dispatch_times_step del: dispatch_times.simps)
  qed
qed

text \<open>
  The colour commands and the sensor updates of a run are counted by \<open>dispatch_times\<close>.
\<close>

lemma slave_run_controller: "controller (slave_run tks st) = controller st"
  by (induction tks st rule: slave_run.induct) (simp_all add: slave_loop_controller)

lemma slave_run_counts:
  "length (published (slave_run tks st)) =
     length (published st) + length (dispatch_times tks st) \<and>
   length (mesh_sent (slave_run tks st)) =
     length (mesh_sent st) + (if controller st then length (dispatch_times tks st) else 0)"
proof (induction tks arbitrary: st)
  case Nil
  show ?case by simp
next
  case (Cons tk tks)
  obtain d tr tn where tk: "tk = (d, tr, tn)" by (cases tk)
  let ?st' = "slave_loop d tr tn st"
  have c: "controller ?st' = controller st" by (rule slave_loop_controller)
  show ?case
  proof (cases rule: slave_loop_cases [of tn st d tr])
    case dispatch
    have ne: "published ?st' \<noteq> published st"
      using dispatch(3) by (rule length_Suc_neq)
    with dispatch Cons.IH [of ?st'] c show ?thesis
      by (simp add: tk dispatch_times_step del: dispatch_times.simps)
  next
    case idle
    with Cons.IH [of ?st'] c show ?thesis
      by (simp add: tk dispatch_times_step del: dispatch_times.simps)
  qed
qed

lemma slave_loop_valid_packet:
  assumes "UDP_PACKET_SIZE \<le> length buf"
      and "(buf ! 0, buf ! 1) = (of_char CHR ''A'', of_char CHR ''S'')"
  shows "volume (slave_loop (Some buf) t_rx t_now st) = real (unat (buf ! 2)) / 255"
    and "bass_level (slave_loop (Some buf) t_rx t_now st) = real (unat (buf ! 3)) / 255"
    and "mid_level (slave_loop (Some buf) t_rx t_now st) = real (unat (buf ! 4)) / 255"
    and "treble_level (slave_loop (Some buf) t_rx t_now st) = real (unat (buf ! 5)) / 255"
    and "packet_count (slave_loop (Some buf) t_rx t_now st) = packet_count st + 1"
    and "last_packet_time (slave_loop (Some buf) t_rx t_now st) = t_rx"
  using assms
  by (simp_all add: slave_loop_def receive_audio_data_def read_packet_def dispatch_effects
      Let_def)

text \<open>
  C7. In \<^verbatim>\<open>slave_loop\<close>, a datagram of at least 24 bytes with the right header sets the
  four levels from its bytes (byte / 255, exact in the real-number model), adds one to
  \<open>packet_count\<close> and stores the clock reading in \<open>last_packet_time\<close>, whether or not the
  call dispatches: when less than 50 ms have passed since \<open>last_update\<close> no colour command
  is sent and no sensor is updated; otherwise, with the controller set, exactly one colour
  command is sent, built from the colour of the new levels. Over any sequence of calls
  (with or without datagrams, at any rate) each dispatch, that is each call that sends a
  colour command or updates the sensors, comes at least 50 ms after the previous one and
  after the initial \<open>last_update\<close>, in the source's 32-bit clock arithmetic; when the clock
  readings of the run do not wrap around, the readings of two successive dispatches differ
  by at least 50. The run updates the sensors once per dispatch and, with the controller
  set, sends one colour command per dispatch and no other.
\<close>

theorem slave_rate_limit:
  assumes "UDP_PACKET_SIZE \<le> length buf"
      and "(buf ! 0, buf ! 1) = (of_char CHR ''A'', of_char CHR ''S'')"
  shows "(let st' = slave_loop (Some buf) t_rx t_now st
          in volume st' = real (unat (buf ! 2)) / 255 \<and>
             bass_level st' = real (unat (buf ! 3)) / 255 \<and>
             mid_level st' = real (unat (buf ! 4)) / 255 \<and>
             treble_level st' = real (unat (buf ! 5)) / 255 \<and>
             packet_count st' = packet_count st + 1 \<and>
             last_packet_time st' = t_rx \<and>
             (t_now - last_update st < 50 \<longrightarrow>
                mesh_sent st' = mesh_sent st \<and> published st' = published st) \<and>
             (50 \<le> t_now - last_update st \<and> controller st \<longrightarrow>
                mesh_sent st' = mesh_sent st @
                  [(0xFFFF, [0x93, fst (target_addr st), snd (target_addr st), 0x04, 0xff,
                             fst (color_rgb st'), fst (snd (color_rgb st')),
                             snd (snd (color_rgb st')), 0, 0, 0, 0])])) \<and>
         successively (\<lambda>a b. 50 \<le> b - a) (last_update st # dispatch_times tks st) \<and>
         (sorted (map unat (last_update st # map (\<lambda>tk. snd (snd tk)) tks)) \<longrightarrow>
          successively (\<lambda>a b. unat a + 50 \<le> unat b) (last_update st # dispatch_times tks st)) \<and>
         length (published (slave_run tks st)) =
           length (published st) + length (dispatch_times tks st) \<and>
         length (mesh_sent (slave_run tks st)) =
           length (mesh_sent st) + (if controller st then length (dispatch_times tks st) else 0)"
proof -
  let ?st' = "slave_loop (Some buf) t_rx t_now st"
  have idle: "t_now - last_update st < 50 \<longrightarrow>
      mesh_sent ?st' = mesh_sent st \<and> published ?st' = published st"
    using slave_loop_idle [of t_now st "Some buf" t_rx] by simp
  have sent: "50 \<le> t_now - last_update st \<and> controller st \<longrightarrow>
      mesh_sent ?st' = mesh_sent st @
        [(0xFFFF, [0x93, fst (target_addr st), snd (target_addr st), 0x04, 0xff,
                   fst (color_rgb ?st'), fst (snd (color_rgb ?st')),
                   snd (snd (color_rgb ?st')), 0, 0, 0, 0])]"
    using assms(1)
    by (simp add: slave_loop_def receive_keeps dispatch_effects color_rgb_last_update Let_def)
  show ?thesis
    using slave_loop_valid_packet [OF assms, of t_rx t_now st] idle sent
      successively_dispatch_word [of st tks] successively_dispatch_nat [of st tks]
      slave_run_counts [of tks st]
    by (simp add: Let_def)
qed

theorem slave_rate_limit_witness:
  "UDP_PACKET_SIZE \<le> length (65 # 83 # replicate 22 (51 :: u8)) \<and>
   packet_count (slave_loop (Some (65 # 83 # replicate 22 51)) 100 100 ((new_effect False)\<lparr>controller := True\<rparr>)) = 1 \<and>
   volume (slave_loop (Some (65 # 83 # replicate 22 51)) 100 100 ((new_effect False)\<lparr>controller := True\<rparr>)) = 1 / 5 \<and>
   dispatch_times
     [(Some (65 # 83 # replicate 22 51), 100, 100), (Some (65 # 83 # replicate 22 51), 120, 120),
      (Some (65 # 83 # replicate 22 51), 149, 149), (Some (65 # 83 # replicate 22 51), 150, 150),
      (Some (65 # 83 # replicate 22 51), 160, 160)] ((new_effect False)\<lparr>controller := True\<rparr>) = [100, 150] \<and>
   mesh_sent (slave_run
     [(Some (65 # 83 # replicate 22 51), 100, 100), (Some (65 # 83 # replicate 22 51), 120, 120),
      (Some (65 # 83 # replicate 22 51), 149, 149), (Some (65 # 83 # replicate 22 51), 150, 150),
      (Some (65 # 83 # replicate 22 51), 160, 160)] ((new_effect False)\<lparr>controller := True\<rparr>)) =
     [(0xFFFF, [0x93, 0x2a, 0xa8, 0x04, 0xff, 51, 51, 51, 0, 0, 0, 0]),
      (0xFFFF, [0x93, 0x2a, 0xa8, 0x04, 0xff, 51, 51, 51, 0, 0, 0, 0])] \<and>
   packet_count (slave_run
     [(Some (65 # 83 # replicate 22 51), 100, 100), (Some (65 # 83 # replicate 22 51), 120, 120),
      (Some (65 # 83 # replicate 22 51), 149, 149), (Some (65 # 83 # replicate 22 51), 150, 150),
      (Some (65 # 83 # replicate 22 51), 160, 160)] ((new_effect False)\<lparr>controller := True\<rparr>)) = 5"
proof -
  have h1: "UDP_PACKET_SIZE \<le> length (65 # 83 # replicate 22 (51 :: u8))"
    by (simp add: UDP_PACKET_SIZE_def)
  have h2: "((65 # 83 # replicate 22 (51 :: u8)) ! 0, (65 # 83 # replicate 22 (51 :: u8)) ! 1) =
      (of_char CHR ''A'', of_char CHR ''S'')"
    by simp
  show ?thesis
    using slave_rate_limit [OF h1 h2, of 100 100 "((new_effect False)\<lparr>controller := True\<rparr>)"
        "[(Some (65 # 83 # replicate 22 51), 100, 100), (Some (65 # 83 # replicate 22 51), 120, 120),
      (Some (65 # 83 # replicate 22 51), 149, 149), (Some (65 # 83 # replicate 22 51), 150, 150),
      (Some (65 # 83 # replicate 22 51), 160, 160)]"]
    by (simp add: UDP_PACKET_SIZE_def slave_loop_def receive_audio_data_def read_packet_def
        send_color_command_def send_mesh_command_def update_sensors_def new_effect_def Let_def
        color_rgb_def to_uint8_def trunc_real_def)
qed


section \<open>Debounce and deduplication in FastconLight\<close>

lemma loop_waits:
  assumes "has_pending_command st"
      and "now - last_state_change st < DEBOUNCE_MS \<or> now - last_command_sent st < MIN_INTERVAL_MS"
  shows "loop now st = st"
  using assms by (auto simp add: loop_def Let_def)

lemma run_loop_waits:
  assumes "has_pending_command st"
      and "\<forall>t\<in>set ts. t - last_state_change st < DEBOUNCE_MS \<or>
                      t - last_command_sent st < MIN_INTERVAL_MS"
  shows "run_loop ts st = st"
  using assms by (induction ts) (simp_all add: loop_waits)

lemma loop_sends:
  assumes "has_pending_command st"
      and "DEBOUNCE_MS \<le> now - last_state_change st"
      and "MIN_INTERVAL_MS \<le> now - last_command_sent st"
      and "pending_data st \<noteq> last_sent_data st"
  shows "loop now st = st\<lparr>queued := queued st @ [(light_id st, pending_data st)],
                         last_sent_data := pending_data st,
                         last_command_sent := now,
                         has_pending_command := False\<rparr>"
  using assms by (simp add: loop_def Let_def not_less [symmetric])


lemma run_loop_append: "run_loop (ts @ us) st = run_loop us (run_loop ts st)"
  by (induction ts arbitrary: st) simp_all


text \<open>
  C3. After \<^verbatim>\<open>write_state\<close> at time \<open>t0\<close> with a payload different from the last sent
  one: calls of \<^verbatim>\<open>loop\<close> at times \<open>t\<close> with \<open>t - t0 < DEBOUNCE_MS\<close> change nothing and send
  nothing; so do calls at which the debounce time or the minimum interval since
  \<open>last_command_sent\<close> has not elapsed; and the first call at which both have elapsed
  queues exactly one command, the submitted payload. Elapsed times are the source's
  differences of 32-bit clock readings.
\<close>

theorem debounce_timing:
  fixes ctrl :: "'s FastconController"
  assumes "single_control ctrl (light_id st) (get_light_data ctrl state) \<noteq> last_sent_data st"
      and "\<forall>t\<in>set early. t - t0 < DEBOUNCE_MS"
      and "\<forall>t\<in>set waiting. t - t0 < DEBOUNCE_MS \<or> t - last_command_sent st < MIN_INTERVAL_MS"
      and "DEBOUNCE_MS \<le> now - t0"
      and "MIN_INTERVAL_MS \<le> now - last_command_sent st"
  shows "queued (write_state ctrl state t0 st) = queued st \<and>
         run_loop early (write_state ctrl state t0 st) = write_state ctrl state t0 st \<and>
         run_loop waiting (write_state ctrl state t0 st) = write_state ctrl state t0 st \<and>
         queued (run_loop (waiting @ [now]) (write_state ctrl state t0 st)) =
           queued st @
           [(light_id st, single_control ctrl (light_id st) (get_light_data ctrl state))]"
proof -
  define st1 where "st1 = write_state ctrl state t0 st"
  have f: "has_pending_command st1" "last_state_change st1 = t0"
    "last_command_sent st1 = last_command_sent st" "queued st1 = queued st"
    "light_id st1 = light_id st" "last_sent_data st1 = last_sent_data st"
    "pending_data st1 = single_control ctrl (light_id st) (get_light_data ctrl state)"
    by (simp_all add: st1_def write_state_def Let_def)
  have e: "run_loop early st1 = st1"
    using assms(2) by (intro run_loop_waits) (simp_all add: f)
  have w: "run_loop waiting st1 = st1"
    using assms(3) by (intro run_loop_waits) (simp_all add: f)
  have "loop now st1 = st1\<lparr>queued := queued st1 @ [(light_id st1, pending_data st1)],
                         last_sent_data := pending_data st1,
                         last_command_sent := now,
                         has_pending_command := False\<rparr>"
    using assms(1,4,5) by (intro loop_sends) (simp_all add: f)
  then have s: "queued (run_loop (waiting @ [now]) st1) =
      queued st @ [(light_id st, single_control ctrl (light_id st) (get_light_data ctrl state))]"
    by (simp add: run_loop_append w f)
  show ?thesis
    using e w s f(4) unfolding st1_def by simp
qed

theorem debounce_timing_witness:
  "run_loop [1010, 1099]
      (write_state \<lparr>get_light_data = (\<lambda>s. s), single_control = (\<lambda>lid d. lid # d)\<rparr>
         [7 :: u8] 1000 ((new_light 1)\<lparr>last_sent_data := [1, 3], last_command_sent := 900\<rparr>)) =
    write_state \<lparr>get_light_data = (\<lambda>s. s), single_control = (\<lambda>lid d. lid # d)\<rparr>
         [7 :: u8] 1000 ((new_light 1)\<lparr>last_sent_data := [1, 3], last_command_sent := 900\<rparr>) \<and>
   queued (run_loop ([1010, 1150, 1199] @ [1200])
      (write_state \<lparr>get_light_data = (\<lambda>s. s), single_control = (\<lambda>lid d. lid # d)\<rparr>
         [7 :: u8] 1000 ((new_light 1)\<lparr>last_sent_data := [1, 3], last_command_sent := 900\<rparr>))) =
     [(1, [1, 7])]"
proof -
  let ?ctrl = "\<lparr>get_light_data = (\<lambda>s :: u8 list. s), single_control = (\<lambda>lid d. lid # d)\<rparr>"
  let ?st = "(new_light 1)\<lparr>last_sent_data := [1, 3], last_command_sent := 900\<rparr>"
  have h1: "single_control ?ctrl (light_id ?st) (get_light_data ?ctrl [7]) \<noteq> last_sent_data ?st"
    by (simp add: new_light_def)
  have h2: "\<forall>t\<in>set [1010, 1099 :: u32]. t - 1000 < DEBOUNCE_MS"
    by (simp add: DEBOUNCE_MS_def)
  have h3: "\<forall>t\<in>set [1010, 1150, 1199 :: u32]. t - 1000 < DEBOUNCE_MS \<or>
      t - last_command_sent ?st < MIN_INTERVAL_MS"
    by (simp add: DEBOUNCE_MS_def MIN_INTERVAL_MS_def)
  have h4: "DEBOUNCE_MS \<le> 1200 - 1000"
    by (simp add: DEBOUNCE_MS_def)
  have h5: "MIN_INTERVAL_MS \<le> 1200 - last_command_sent ?st"
    by (simp add: MIN_INTERVAL_MS_def)
  show ?thesis
    using debounce_timing [OF h1 h2 h3 h4 h5] by (auto simp add: new_light_def run_loop_append)
qed




end
